theory Spec2Isabelle
  imports Complex_Main
begin

section \<open>iframe-finder: recursive lookup across nested documents\<close>

text \<open>
  The library (\<^verbatim>\<open>src/index.ts\<close>) walks a document, the iframes in it, the documents
  inside those iframes, and so on. This theory embeds its six public operations and
  their three recursive helpers and proves the properties of the traversal.
\<close>

subsection \<open>The host: numbers, elements, documents\<close>

text \<open>
  \<^verbatim>\<open>maxDepth\<close> is a JavaScript number. The code only ever compares it with
  \<^verbatim>\<open>currentDepth\<close>, which starts at 0 and grows by 1 per nested document, so the
  current depth is a natural number and the bound is a real, one of the two infinities,
  or NaN. (A double counts exactly up to \<open>2^53\<close>, far beyond the depth of any document
  tree that fits in memory.)
\<close>

datatype number = Finite real | PosInfinity | NegInfinity | NaN

text \<open>\<^verbatim>\<open>currentDepth > maxDepth\<close>; every comparison with NaN is false.\<close>

fun gt :: "nat \<Rightarrow> number \<Rightarrow> bool" where
  "gt currentDepth (Finite r) = (real currentDepth > r)"
| "gt currentDepth PosInfinity = False"
| "gt currentDepth NegInfinity = True"
| "gt currentDepth NaN = False"

text \<open>
  The one exception the host raises during a search: reading \<^verbatim>\<open>contentDocument\<close>
  across origins.
\<close>

datatype error = SecurityError

text \<open>
  A document is the sequence of its elements in document order. An element carries
  the attributes the library reads and what its \<^verbatim>\<open>contentDocument\<close> accessor
  would give: a same-origin loaded document, nothing (not loaded, no \<^verbatim>\<open>src\<close>, or not
  an iframe at all), or a cross-origin browsing context.
\<close>

datatype element =
  Element (tagName: string) (id_attr: string) (name_attr: string) (className: string)
          (browsingContext: nested)
and nested = SameOrigin document | NotLoaded | CrossOrigin
and document = Document (elements: "element list")

text \<open>\<^verbatim>\<open>iframe.contentDocument\<close>: a document, \<^verbatim>\<open>null\<close>, or a raised security error.\<close>

fun contentDocument :: "element \<Rightarrow> error + document option" where
  "contentDocument (Element t i n c (SameOrigin d)) = Inr (Some d)"
| "contentDocument (Element t i n c NotLoaded) = Inr None"
| "contentDocument (Element t i n c CrossOrigin) = Inl SecurityError"

text \<open>
  The selector engine belongs to the host and is a parameter \<open>matches\<close> of every
  operation: \<open>matches selector e\<close> says whether element \<open>e\<close> matches the selector
  (the DOM's \<^verbatim>\<open>Element.matches\<close>). \<^verbatim>\<open>querySelectorAll\<close> returns the matching elements
  of one document in document order, \<^verbatim>\<open>querySelector\<close> the first element in document
  order that matches, or \<^verbatim>\<open>null\<close>. Neither looks into a nested document.
\<close>

definition querySelectorAll ::
  "(string \<Rightarrow> element \<Rightarrow> bool) \<Rightarrow> document \<Rightarrow> string \<Rightarrow> element list" where
  "querySelectorAll matches doc selector = filter (matches selector) (elements doc)"

definition querySelector ::
  "(string \<Rightarrow> element \<Rightarrow> bool) \<Rightarrow> document \<Rightarrow> string \<Rightarrow> element option" where
  "querySelector matches doc selector = find (matches selector) (elements doc)"

text \<open>
  A small concrete engine for the examples: \<^verbatim>\<open>#x\<close> selects by id, \<^verbatim>\<open>.x\<close> by class,
  anything else by tag name.
\<close>

fun simpleMatches :: "string \<Rightarrow> element \<Rightarrow> bool" where
  "simpleMatches [] e = False"
| "simpleMatches (c # cs) e =
     (if c = CHR ''#'' then id_attr e = cs
      else if c = CHR ''.'' then className e = cs
      else tagName e = c # cs)"

subsection \<open>Termination measure\<close>

lemma size_list_filter_le: "size_list f (filter P xs) \<le> size_list f xs"
  by (induction xs) auto

lemma size_querySelectorAll: "size_list size (querySelectorAll M doc s) < size doc"
  by (cases doc) (simp add: querySelectorAll_def le_imp_less_Suc size_list_filter_le)

lemma size_contentDocument: "contentDocument e = Inr (Some d) \<Longrightarrow> size d < size e"
  by (cases e rule: contentDocument.cases) auto

subsection \<open>First-match search for iframes\<close>

text \<open>
  The first \<^verbatim>\<open>for\<close> loop of \<^verbatim>\<open>findIframeRecursive\<close>: return the first iframe the
  predicate accepts. A predicate is a pure, total function from an iframe element to
  a boolean, as the type \<^verbatim>\<open>IframePredicate\<close> says.
\<close>

fun findIframeRecursive_pass1 :: "(element \<Rightarrow> bool) \<Rightarrow> element list \<Rightarrow> element option" where
  "findIframeRecursive_pass1 predicate [] = None"
| "findIframeRecursive_pass1 predicate (iframe # rest) =
     (if predicate iframe then Some iframe else findIframeRecursive_pass1 predicate rest)"

text \<open>
  \<^verbatim>\<open>findIframeRecursive\<close> and its second loop. The exception handler protects the
  access to \<^verbatim>\<open>contentDocument\<close> and the recursive call; on an exception the loop
  continues with the next iframe. A result is \<open>Inl\<close> an exception that escapes, or \<open>Inr\<close> the returned value
  (\<open>None\<close> for \<^verbatim>\<open>null\<close>).
\<close>

function findIframeRecursive ::
  "(string \<Rightarrow> element \<Rightarrow> bool) \<Rightarrow> (element \<Rightarrow> bool) \<Rightarrow> document \<Rightarrow> nat \<Rightarrow> number
     \<Rightarrow> error + element option"
and findIframeRecursive_pass2 ::
  "(string \<Rightarrow> element \<Rightarrow> bool) \<Rightarrow> (element \<Rightarrow> bool) \<Rightarrow> element list \<Rightarrow> nat \<Rightarrow> number
     \<Rightarrow> error + element option"
where
  "findIframeRecursive matches predicate doc currentDepth maxDepth =
     (if gt currentDepth maxDepth then Inr None
      else let iframes = querySelectorAll matches doc ''iframe'' in
        case findIframeRecursive_pass1 predicate iframes of
          Some iframe \<Rightarrow> Inr (Some iframe)
        | None \<Rightarrow> findIframeRecursive_pass2 matches predicate iframes currentDepth maxDepth)"
| "findIframeRecursive_pass2 matches predicate [] currentDepth maxDepth = Inr None"
| "findIframeRecursive_pass2 matches predicate (iframe # rest) currentDepth maxDepth =
     (case contentDocument iframe of
        Inl err \<Rightarrow> findIframeRecursive_pass2 matches predicate rest currentDepth maxDepth
      | Inr None \<Rightarrow> findIframeRecursive_pass2 matches predicate rest currentDepth maxDepth
      | Inr (Some contentDoc) \<Rightarrow>
          (case findIframeRecursive matches predicate contentDoc (currentDepth + 1) maxDepth of
             Inl err \<Rightarrow> findIframeRecursive_pass2 matches predicate rest currentDepth maxDepth
           | Inr None \<Rightarrow> findIframeRecursive_pass2 matches predicate rest currentDepth maxDepth
           | Inr (Some foundInNested) \<Rightarrow> Inr (Some foundInNested)))"
  by pat_completeness auto
termination
  by (relation "measure (\<lambda>x. case x of
            Inl (m, p, doc, d, mx) \<Rightarrow> size doc
          | Inr (m, p, fs, d, mx) \<Rightarrow> size_list size fs)")
     (auto simp: size_querySelectorAll dest: size_contentDocument)

declare findIframeRecursive.simps [simp del]

subsection \<open>First-match search for elements\<close>

function findElementRecursive ::
  "(string \<Rightarrow> element \<Rightarrow> bool) \<Rightarrow> string \<Rightarrow> document \<Rightarrow> nat \<Rightarrow> number
     \<Rightarrow> error + element option"
and findElementRecursive_loop ::
  "(string \<Rightarrow> element \<Rightarrow> bool) \<Rightarrow> string \<Rightarrow> element list \<Rightarrow> nat \<Rightarrow> number
     \<Rightarrow> error + element option"
where
  "findElementRecursive matches selector doc currentDepth maxDepth =
     (if gt currentDepth maxDepth then Inr None
      else case querySelector matches doc selector of
          Some element \<Rightarrow> Inr (Some element)
        | None \<Rightarrow>
            (let iframes = querySelectorAll matches doc ''iframe'' in
             findElementRecursive_loop matches selector iframes currentDepth maxDepth))"
| "findElementRecursive_loop matches selector [] currentDepth maxDepth = Inr None"
| "findElementRecursive_loop matches selector (iframe # rest) currentDepth maxDepth =
     (case contentDocument iframe of
        Inl err \<Rightarrow> findElementRecursive_loop matches selector rest currentDepth maxDepth
      | Inr None \<Rightarrow> findElementRecursive_loop matches selector rest currentDepth maxDepth
      | Inr (Some contentDoc) \<Rightarrow>
          (case findElementRecursive matches selector contentDoc (currentDepth + 1) maxDepth of
             Inl err \<Rightarrow> findElementRecursive_loop matches selector rest currentDepth maxDepth
           | Inr None \<Rightarrow> findElementRecursive_loop matches selector rest currentDepth maxDepth
           | Inr (Some foundInNested) \<Rightarrow> Inr (Some foundInNested)))"
  by pat_completeness auto
termination
  by (relation "measure (\<lambda>x. case x of
            Inl (m, s, doc, d, mx) \<Rightarrow> size doc
          | Inr (m, s, fs, d, mx) \<Rightarrow> size_list size fs)")
     (auto simp: size_querySelectorAll dest: size_contentDocument)

declare findElementRecursive.simps [simp del]

subsection \<open>All-matches search for elements\<close>

text \<open>
  \<^verbatim>\<open>findAllElementsRecursive\<close> returns nothing and pushes onto the array \<^verbatim>\<open>results\<close>
  it is given. The array is threaded through: the function returns how it ended
  (\<open>Inr ()\<close> normally, \<open>Inl\<close> an escaping exception) together with the array as it has
  left it. What a nested call pushed stays pushed also when the handler takes over.
\<close>

function findAllElementsRecursive ::
  "(string \<Rightarrow> element \<Rightarrow> bool) \<Rightarrow> string \<Rightarrow> document \<Rightarrow> nat \<Rightarrow> number \<Rightarrow> element list
     \<Rightarrow> (error + unit) \<times> element list"
and findAllElementsRecursive_loop ::
  "(string \<Rightarrow> element \<Rightarrow> bool) \<Rightarrow> string \<Rightarrow> element list \<Rightarrow> nat \<Rightarrow> number \<Rightarrow> element list
     \<Rightarrow> (error + unit) \<times> element list"
where
  "findAllElementsRecursive matches selector doc currentDepth maxDepth results =
     (if gt currentDepth maxDepth then (Inr (), results)
      else let elems = querySelectorAll matches doc selector;
               results = results @ elems;
               iframes = querySelectorAll matches doc ''iframe''
           in findAllElementsRecursive_loop matches selector iframes currentDepth maxDepth results)"
| "findAllElementsRecursive_loop matches selector [] currentDepth maxDepth results =
     (Inr (), results)"
| "findAllElementsRecursive_loop matches selector (iframe # rest) currentDepth maxDepth results =
     (case contentDocument iframe of
        Inl err \<Rightarrow>
          findAllElementsRecursive_loop matches selector rest currentDepth maxDepth results
      | Inr None \<Rightarrow>
          findAllElementsRecursive_loop matches selector rest currentDepth maxDepth results
      | Inr (Some contentDoc) \<Rightarrow>
          (case findAllElementsRecursive matches selector contentDoc (currentDepth + 1)
                  maxDepth results of
             (Inl err, results) \<Rightarrow>
               findAllElementsRecursive_loop matches selector rest currentDepth maxDepth results
           | (Inr u, results) \<Rightarrow>
               findAllElementsRecursive_loop matches selector rest currentDepth maxDepth results))"
  by pat_completeness auto
termination
  by (relation "measure (\<lambda>x. case x of
            Inl (m, s, doc, d, mx, rs) \<Rightarrow> size doc
          | Inr (m, s, fs, d, mx, rs) \<Rightarrow> size_list size fs)")
     (auto simp: size_querySelectorAll dest: size_contentDocument)

declare findAllElementsRecursive.simps [simp del]

subsection \<open>The public operations\<close>

text \<open>
  \<^verbatim>\<open>FindIframeOptions\<close>: both fields are optional. An omitted \<^verbatim>\<open>options\<close> argument
  is the empty object, \<open>\<lparr>rootDocument = None, maxDepth = None\<rparr>\<close>. The global
  \<^verbatim>\<open>document\<close> that \<^verbatim>\<open>rootDocument\<close> defaults to is the parameter \<open>document\<close>.
\<close>

record FindIframeOptions =
  rootDocument :: "document option"
  maxDepth :: "number option"

text \<open>\<^verbatim>\<open>const { rootDocument = document, maxDepth = Infinity } = options\<close>\<close>

definition rootDocument_or :: "document \<Rightarrow> FindIframeOptions \<Rightarrow> document" where
  "rootDocument_or document options =
     (case rootDocument options of None \<Rightarrow> document | Some d \<Rightarrow> d)"

definition maxDepth_or_Infinity :: "FindIframeOptions \<Rightarrow> number" where
  "maxDepth_or_Infinity options =
     (case maxDepth options of None \<Rightarrow> PosInfinity | Some n \<Rightarrow> n)"

definition findIframeById ::
  "(string \<Rightarrow> element \<Rightarrow> bool) \<Rightarrow> document \<Rightarrow> string \<Rightarrow> FindIframeOptions
     \<Rightarrow> error + element option" where
  "findIframeById matches document id' options =
     findIframeRecursive matches (\<lambda>iframe. id_attr iframe = id')
       (rootDocument_or document options) 0 (maxDepth_or_Infinity options)"

definition findIframeByName ::
  "(string \<Rightarrow> element \<Rightarrow> bool) \<Rightarrow> document \<Rightarrow> string \<Rightarrow> FindIframeOptions
     \<Rightarrow> error + element option" where
  "findIframeByName matches document name options =
     findIframeRecursive matches (\<lambda>iframe. name_attr iframe = name)
       (rootDocument_or document options) 0 (maxDepth_or_Infinity options)"

definition findIframe ::
  "(string \<Rightarrow> element \<Rightarrow> bool) \<Rightarrow> document \<Rightarrow> (element \<Rightarrow> bool) \<Rightarrow> FindIframeOptions
     \<Rightarrow> error + element option" where
  "findIframe matches document predicate options =
     findIframeRecursive matches predicate
       (rootDocument_or document options) 0 (maxDepth_or_Infinity options)"

text \<open>\<^verbatim>\<open>findAllIframes(predicate, rootDocument = document)\<close>\<close>

definition findAllIframes ::
  "(string \<Rightarrow> element \<Rightarrow> bool) \<Rightarrow> document \<Rightarrow> (element \<Rightarrow> bool) \<Rightarrow> document option
     \<Rightarrow> element list" where
  "findAllIframes matches document predicate rootDocument' =
     (let rootDoc = (case rootDocument' of None \<Rightarrow> document | Some d \<Rightarrow> d);
          iframes = querySelectorAll matches rootDoc ''iframe''
      in filter predicate iframes)"

definition findElement ::
  "(string \<Rightarrow> element \<Rightarrow> bool) \<Rightarrow> document \<Rightarrow> string \<Rightarrow> FindIframeOptions
     \<Rightarrow> error + element option" where
  "findElement matches document selector options =
     findElementRecursive matches selector
       (rootDocument_or document options) 0 (maxDepth_or_Infinity options)"

definition findAllElements ::
  "(string \<Rightarrow> element \<Rightarrow> bool) \<Rightarrow> document \<Rightarrow> string \<Rightarrow> FindIframeOptions
     \<Rightarrow> error + element list" where
  "findAllElements matches document selector options =
     (let results = [] in
      case findAllElementsRecursive matches selector
             (rootDocument_or document options) 0 (maxDepth_or_Infinity options) results of
        (Inl err, results) \<Rightarrow> Inl err
      | (Inr u, results) \<Rightarrow> Inr results)"

subsection \<open>Vocabulary for the properties\<close>

text \<open>
  The nested documents a list of iframes gives access to, in the order of the iframes:
  an iframe whose \<^verbatim>\<open>contentDocument\<close> is absent or raises contributes none.
\<close>

definition nestedDocuments :: "element list \<Rightarrow> document list" where
  "nestedDocuments iframes =
     List.map_filter (\<lambda>iframe. case contentDocument iframe of
                                  Inr (Some contentDoc) \<Rightarrow> Some contentDoc
                                | _ \<Rightarrow> None) iframes"

definition headOption :: "'a list \<Rightarrow> 'a option" where
  "headOption xs = (case xs of [] \<Rightarrow> None | x # _ \<Rightarrow> Some x)"

definition found :: "error + 'a option \<Rightarrow> 'a option" where
  "found r = (case r of Inl err \<Rightarrow> None | Inr v \<Rightarrow> v)"

lemma nestedDocuments_Nil [simp]: "nestedDocuments [] = []"
  by (simp add: nestedDocuments_def)

lemma nestedDocuments_Cons:
  "nestedDocuments (f # fs) =
     (case contentDocument f of Inr (Some cd) \<Rightarrow> cd # nestedDocuments fs
                              | _ \<Rightarrow> nestedDocuments fs)"
  by (simp add: nestedDocuments_def split: sum.splits option.splits)

lemma nestedDocuments_append [simp]:
  "nestedDocuments (xs @ ys) = nestedDocuments xs @ nestedDocuments ys"
  by (simp add: nestedDocuments_def map_filter_def)

lemma size_nestedDocuments_list:
  "cd \<in> set (nestedDocuments fs) \<Longrightarrow> size cd < size_list size fs"
proof (induction fs)
  case Nil
  then show ?case by simp
next
  case (Cons f fs)
  then show ?case
    by (auto simp: nestedDocuments_Cons split: sum.splits option.splits
             dest: size_contentDocument)
qed

lemma size_nestedDocuments:
  "cd \<in> set (nestedDocuments (querySelectorAll M doc s)) \<Longrightarrow> size cd < size doc"
  using size_nestedDocuments_list [of cd "querySelectorAll M doc s"]
        size_querySelectorAll [of M doc s]
  by simp

text \<open>
  The pre-order sequence of matches, as the specification words it for the all-matches
  mode: nothing beyond the depth bound; otherwise the matches of the document itself in
  document order, followed by the sequences of its accessible nested documents, one
  after the other in iframe order.
\<close>

function spec_preorderMatches ::
  "(string \<Rightarrow> element \<Rightarrow> bool) \<Rightarrow> string \<Rightarrow> document \<Rightarrow> nat \<Rightarrow> number \<Rightarrow> element list" where
  "spec_preorderMatches matches selector doc depth bound =
     (if gt depth bound then []
      else querySelectorAll matches doc selector @
           concat (map (\<lambda>nested. spec_preorderMatches matches selector nested (depth + 1) bound)
                     (nestedDocuments (querySelectorAll matches doc ''iframe''))))"
  by pat_completeness auto
termination
  by (relation "measure (\<lambda>(m, s, doc, d, b). size doc)")
     (auto simp: size_nestedDocuments)

declare spec_preorderMatches.simps [simp del]





subsection \<open>Example documents\<close>

text \<open>
  A root with an iframe \<^verbatim>\<open>a\<close> that has no document and an iframe \<^verbatim>\<open>b\<close> whose
  document holds the iframe \<^verbatim>\<open>target\<close>; a root with a cross-origin iframe next to an
  accessible one that holds a \<^verbatim>\<open>div.foo\<close>; a root with a cross-origin iframe between
  two accessible ones, the second of which holds a further iframe; and a root whose
  first iframe holds a match two levels down while its second iframe holds a match one
  level down.
\<close>

definition ex_target :: element where
  "ex_target = Element ''iframe'' ''target'' ''inner'' ''content'' NotLoaded"
definition ex_a :: element where
  "ex_a = Element ''iframe'' ''a'' ''first'' ''plain'' NotLoaded"
definition ex_b :: element where
  "ex_b = Element ''iframe'' ''b'' ''second'' ''content'' (SameOrigin (Document [ex_target]))"
definition ex_root :: document where
  "ex_root = Document [ex_a, ex_b]"

definition ex_foo :: element where
  "ex_foo = Element ''div'' ''box'' [] ''foo'' NotLoaded"
definition ex_blocked :: element where
  "ex_blocked = Element ''iframe'' ''ads'' [] [] CrossOrigin"
definition ex_open :: element where
  "ex_open = Element ''iframe'' ''app'' [] [] (SameOrigin (Document [ex_foo]))"
definition ex_mixed :: document where
  "ex_mixed = Document [ex_blocked, ex_open]"

definition ex_inner :: element where
  "ex_inner = Element ''iframe'' ''inner'' ''deepest'' ''foo'' NotLoaded"
definition ex_host :: element where
  "ex_host = Element ''iframe'' ''host'' [] [] (SameOrigin (Document [ex_foo, ex_inner]))"
definition ex_guarded :: document where
  "ex_guarded = Document [ex_open, ex_blocked, ex_host]"


lemmas ex_defs = ex_target_def ex_a_def ex_b_def ex_root_def ex_foo_def ex_blocked_def
  ex_open_def ex_mixed_def ex_inner_def ex_host_def ex_guarded_def


lemmas eval_simps = findIframeRecursive.simps findElementRecursive.simps
  findAllElementsRecursive.simps querySelectorAll_def querySelector_def
  findIframe_def findElement_def findAllElements_def findIframeById_def findIframeByName_def
  findAllIframes_def rootDocument_or_def maxDepth_or_Infinity_def nestedDocuments_Cons
  Let_def

section \<open>Properties\<close>

subsection \<open>Auxiliary facts\<close>

lemma headOption_simps [simp]: "headOption [] = None" "headOption (x # xs) = Some x"
  by (simp_all add: headOption_def)

lemma pass1_find: "findIframeRecursive_pass1 P fs = find P fs"
  by (induction fs) auto

lemma pass2_char:
  "findIframeRecursive_pass2 M P fs d m =
     Inr (headOption (List.map_filter (\<lambda>cd. found (findIframeRecursive M P cd (d + 1) m))
                        (nestedDocuments fs)))"
proof (induction fs)
  case Nil
  show ?case by simp
next
  case (Cons f fs)
  show ?case
    by (simp add: Cons nestedDocuments_Cons found_def
             split: sum.splits option.splits)
qed

lemma all_loop_char:
  assumes IH: "\<And>cd rs. cd \<in> set (nestedDocuments fs) \<Longrightarrow>
                 findAllElementsRecursive M s cd (d + 1) m rs
                   = (Inr (), rs @ spec_preorderMatches M s cd (d + 1) m)"
  shows "findAllElementsRecursive_loop M s fs d m rs =
           (Inr (), rs @ concat (map (\<lambda>cd. spec_preorderMatches M s cd (d + 1) m)
                                   (nestedDocuments fs)))"
  using IH
proof (induction fs arbitrary: rs)
  case Nil
  show ?case by (simp add: findAllElementsRecursive.simps)
next
  case (Cons f fs)
  show ?case
  proof (cases "contentDocument f")
    case (Inl e)
    with Cons show ?thesis
      by (simp add: findAllElementsRecursive.simps nestedDocuments_Cons)
  next
    case (Inr v)
    show ?thesis
    proof (cases v)
      case None
      with Inr Cons show ?thesis
        by (simp add: findAllElementsRecursive.simps nestedDocuments_Cons)
    next
      case (Some cd)
      have here: "findAllElementsRecursive M s cd (d + 1) m rs
                    = (Inr (), rs @ spec_preorderMatches M s cd (d + 1) m)"
        using Cons.prems [of cd rs] Inr Some by (simp add: nestedDocuments_Cons)
      have rest: "\<And>rs'. findAllElementsRecursive_loop M s fs d m rs' =
           (Inr (), rs' @ concat (map (\<lambda>cd. spec_preorderMatches M s cd (d + 1) m)
                                   (nestedDocuments fs)))"
        using Cons.IH Cons.prems Inr Some by (simp add: nestedDocuments_Cons)
      show ?thesis
        using Inr Some here rest
        by (simp add: findAllElementsRecursive.simps nestedDocuments_Cons)
    qed
  qed
qed

lemma all_char:
  "findAllElementsRecursive M s doc d m rs = (Inr (), rs @ spec_preorderMatches M s doc d m)"
proof (induction doc arbitrary: d rs rule: measure_induct_rule [of size])
  case (less doc)
  show ?case
  proof (cases "gt d m")
    case True
    then show ?thesis
      by (simp add: findAllElementsRecursive.simps(1) spec_preorderMatches.simps)
  next
    case False
    have "findAllElementsRecursive_loop M s (querySelectorAll M doc ''iframe'') d m
            (rs @ querySelectorAll M doc s) =
          (Inr (), (rs @ querySelectorAll M doc s) @
             concat (map (\<lambda>cd. spec_preorderMatches M s cd (d + 1) m)
                      (nestedDocuments (querySelectorAll M doc ''iframe''))))"
      by (rule all_loop_char) (simp add: less size_nestedDocuments)
    with False show ?thesis
      by (simp add: findAllElementsRecursive.simps(1) spec_preorderMatches.simps [of M s doc] Let_def)
  qed
qed

lemma querySelector_head: "querySelector M doc s = headOption (querySelectorAll M doc s)"
proof -
  have "find P xs = headOption (filter P xs)" for P and xs :: "element list"
    by (induction xs) auto
  then show ?thesis by (simp add: querySelector_def querySelectorAll_def)
qed

lemma headOption_append:
  "headOption (xs @ ys) = (case headOption xs of Some x \<Rightarrow> Some x | None \<Rightarrow> headOption ys)"
  by (cases xs) auto

lemma elem_loop_char:
  assumes IH: "\<And>cd. cd \<in> set (nestedDocuments fs) \<Longrightarrow>
                 findElementRecursive M s cd (d + 1) m
                   = Inr (headOption (spec_preorderMatches M s cd (d + 1) m))"
  shows "findElementRecursive_loop M s fs d m =
           Inr (headOption (concat (map (\<lambda>cd. spec_preorderMatches M s cd (d + 1) m)
                                   (nestedDocuments fs))))"
  using IH
proof (induction fs)
  case Nil
  show ?case by (simp add: findElementRecursive.simps)
next
  case (Cons f fs)
  then show ?case
    by (auto simp: findElementRecursive.simps nestedDocuments_Cons headOption_append
             split: sum.splits option.splits)
qed

lemma elem_char:
  "findElementRecursive M s doc d m = Inr (headOption (spec_preorderMatches M s doc d m))"
proof (induction doc arbitrary: d rule: measure_induct_rule [of size])
  case (less doc)
  have "findElementRecursive_loop M s (querySelectorAll M doc ''iframe'') d m =
           Inr (headOption (concat (map (\<lambda>cd. spec_preorderMatches M s cd (d + 1) m)
                                   (nestedDocuments (querySelectorAll M doc ''iframe'')))))"
    by (rule elem_loop_char) (simp add: less size_nestedDocuments)
  then show ?case
    by (simp add: findElementRecursive.simps(1) spec_preorderMatches.simps [of M s doc]
                  querySelector_head headOption_append Let_def split: option.splits)
qed




lemma headOption_None_iff: "headOption xs = None \<longleftrightarrow> xs = []"
  by (cases xs) auto

lemma find_headOption: "find P xs = headOption (filter P xs)"
  by (induction xs) auto

lemma found_Inr [simp]: "found (Inr v) = v"
  by (simp add: found_def)



lemma findIframeRecursive_unfold:
  "findIframeRecursive M P doc d m =
     Inr (if gt d m then None
          else case find P (querySelectorAll M doc ''iframe'') of
                 Some iframe \<Rightarrow> Some iframe
               | None \<Rightarrow>
                   headOption
                     (List.map_filter (\<lambda>cd. found (findIframeRecursive M P cd (d + 1) m))
                        (nestedDocuments (querySelectorAll M doc ''iframe''))))"
  by (simp add: findIframeRecursive.simps(1) pass1_find pass2_char Let_def split: option.splits)

lemma elem_loop_unfold:
  "findElementRecursive_loop M s fs d m =
     Inr (headOption (List.map_filter (\<lambda>cd. found (findElementRecursive M s cd (d + 1) m))
                        (nestedDocuments fs)))"
proof (induction fs)
  case Nil
  show ?case by (simp add: findElementRecursive.simps)
next
  case (Cons f fs)
  show ?case
    by (simp add: Cons findElementRecursive.simps nestedDocuments_Cons found_def
             split: sum.splits option.splits)
qed

lemma findElementRecursive_unfold:
  "findElementRecursive M s doc d m =
     Inr (if gt d m then None
          else case querySelector M doc s of
                 Some e \<Rightarrow> Some e
               | None \<Rightarrow>
                   headOption
                     (List.map_filter (\<lambda>cd. found (findElementRecursive M s cd (d + 1) m))
                        (nestedDocuments (querySelectorAll M doc ''iframe''))))"
  by (simp add: findElementRecursive.simps(1) elem_loop_unfold Let_def split: option.splits)



lemma rootDocument_or_maxDepth_update [simp]:
  "rootDocument_or document (options\<lparr>maxDepth := b\<rparr>) = rootDocument_or document options"
  by (simp add: rootDocument_or_def)

lemma maxDepth_or_Infinity_update [simp]:
  "maxDepth_or_Infinity (options\<lparr>maxDepth := Some b\<rparr>) = b"
  by (simp add: maxDepth_or_Infinity_def)

lemma map_filter_None [simp]: "List.map_filter (\<lambda>x. None) xs = []"
  by (induction xs) auto

lemma concat_map_Nil [simp]: "concat (map (\<lambda>x. []) xs) = []"
  by (induction xs) auto

lemma headOption_map_filter_find:
  "headOption (List.map_filter (\<lambda>x. find P (f x)) xs) = find P (concat (map f xs))"
  by (induction xs) (auto simp: find_headOption headOption_append split: option.splits)

lemma headOption_concat_map_append:
  "headOption (List.map_filter (\<lambda>x. headOption (f x)) xs) = headOption (concat (map f xs))"
  by (induction xs) (auto simp: headOption_append split: option.splits)

lemma findIframeRecursive_exceeded:
  "gt d m \<Longrightarrow> findIframeRecursive M P doc d m = Inr None"
  by (simp add: findIframeRecursive.simps(1))

lemma findElementRecursive_exceeded:
  "gt d m \<Longrightarrow> findElementRecursive M s doc d m = Inr None"
  by (simp add: findElementRecursive.simps(1))

lemma findAllElementsRecursive_exceeded:
  "gt d m \<Longrightarrow> findAllElementsRecursive M s doc d m rs = (Inr (), rs)"
  by (simp add: findAllElementsRecursive.simps(1))

lemma nestedDocuments_skip:
  "contentDocument f = Inl SecurityError \<or> contentDocument f = Inr None \<Longrightarrow>
     nestedDocuments (before @ f # after) = nestedDocuments (before @ after)"
  by (auto simp: nestedDocuments_Cons)

lemma preorder_snd:
  "spec_preorderMatches M s doc d m = snd (findAllElementsRecursive M s doc d m [])"
  by (simp add: all_char)

lemma findAllElements_char:
  "findAllElements M document s options =
     Inr (spec_preorderMatches M s (rootDocument_or document options) 0
            (maxDepth_or_Infinity options))"
  by (simp add: findAllElements_def all_char)

lemma findElement_char:
  "findElement M document s options =
     Inr (headOption (spec_preorderMatches M s (rootDocument_or document options) 0
            (maxDepth_or_Infinity options)))"
  by (simp add: findElement_def elem_char)

text \<open>
  The scenarios of the specification: \<^verbatim>\<open>findIframeById("target")\<close> finds the nested
  iframe and finds nothing with \<^verbatim>\<open>maxDepth: 0\<close>; \<^verbatim>\<open>findElement(".foo")\<close> finds the
  element behind the accessible iframe although its sibling is cross-origin.
\<close>

lemma spec_scenarios:
  "findIframeById simpleMatches ex_root ''target'' \<lparr>rootDocument = None, maxDepth = None\<rparr>
     = Inr (Some ex_target)"
  "findIframeById simpleMatches ex_root ''target''
     \<lparr>rootDocument = None, maxDepth = Some (Finite 0)\<rparr> = Inr None"
  "findElement simpleMatches ex_mixed ''.foo'' \<lparr>rootDocument = None, maxDepth = None\<rparr>
     = Inr (Some ex_foo)"
  by (simp_all add: eval_simps ex_defs)

subsection \<open>The claims\<close>

text \<open>
  Claim C1. At every document within the depth bound, \<^verbatim>\<open>findIframeRecursive\<close> makes
  two passes over the iframes directly in that document. Pass 1 returns the first of
  them, in document order, that satisfies the predicate. Only when there is none does
  pass 2 run: it goes through the same iframes in the same order, searches each
  accessible nested document one level deeper, and returns the first result that is
  not absent.
\<close>

theorem findIframeRecursive_two_pass:
  "findIframeRecursive M P doc d m =
     Inr (if gt d m then None
          else case find P (querySelectorAll M doc ''iframe'') of
                 Some iframe \<Rightarrow> Some iframe
               | None \<Rightarrow>
                   headOption
                     (List.map_filter (\<lambda>nested. found (findIframeRecursive M P nested (d + 1) m))
                        (nestedDocuments (querySelectorAll M doc ''iframe''))))"
  by (rule findIframeRecursive_unfold)

text \<open>
  Claim C2. The depth check is a strict one. With \<^verbatim>\<open>maxDepth = 0\<close> the root document is
  searched and nothing below it: \<^verbatim>\<open>findIframe\<close> returns the first root iframe that
  satisfies the predicate, \<^verbatim>\<open>findElement\<close> what \<^verbatim>\<open>querySelector\<close> finds in the root.
  With \<^verbatim>\<open>maxDepth = 1\<close> the documents directly inside the root's iframes are searched
  as well, in iframe order, and nothing deeper.
\<close>

theorem maxDepth_zero_and_one:
  "findIframe M document P (options\<lparr>maxDepth := Some (Finite 0)\<rparr>)
     = Inr (find P (querySelectorAll M (rootDocument_or document options) ''iframe'')) \<and>
   findIframe M document P (options\<lparr>maxDepth := Some (Finite 1)\<rparr>)
     = Inr (case find P (querySelectorAll M (rootDocument_or document options) ''iframe'') of
              Some iframe \<Rightarrow> Some iframe
            | None \<Rightarrow> find P (concat (map (\<lambda>nested. querySelectorAll M nested ''iframe'')
                         (nestedDocuments
                            (querySelectorAll M (rootDocument_or document options) ''iframe''))))) \<and>
   findElement M document s (options\<lparr>maxDepth := Some (Finite 0)\<rparr>)
     = Inr (querySelector M (rootDocument_or document options) s) \<and>
   findElement M document s (options\<lparr>maxDepth := Some (Finite 1)\<rparr>)
     = Inr (case querySelector M (rootDocument_or document options) s of
              Some e \<Rightarrow> Some e
            | None \<Rightarrow> headOption (concat (map (\<lambda>nested. querySelectorAll M nested s)
                         (nestedDocuments
                            (querySelectorAll M (rootDocument_or document options) ''iframe'')))))"
proof -
  let ?root = "rootDocument_or document options"
  have i1: "findIframeRecursive M P cd (Suc 0) (Finite 1)
              = Inr (find P (querySelectorAll M cd ''iframe''))" for cd
    by (subst findIframeRecursive_unfold)
       (simp add: findIframeRecursive_exceeded split: option.splits)
  have i0: "findIframeRecursive M P cd (Suc 0) (Finite 0) = Inr None" for cd
    by (simp add: findIframeRecursive_exceeded)
  have e1: "findElementRecursive M s cd (Suc 0) (Finite 1) = Inr (querySelector M cd s)" for cd
    by (subst findElementRecursive_unfold)
       (simp add: findElementRecursive_exceeded split: option.splits)
  have e0: "findElementRecursive M s cd (Suc 0) (Finite 0) = Inr None" for cd
    by (simp add: findElementRecursive_exceeded)
  have A: "findIframe M document P (options\<lparr>maxDepth := Some (Finite 0)\<rparr>)
     = Inr (find P (querySelectorAll M ?root ''iframe''))"
    unfolding findIframe_def
    by (subst findIframeRecursive_unfold) (simp add: i0 split: option.splits)
  have B: "findIframe M document P (options\<lparr>maxDepth := Some (Finite 1)\<rparr>)
     = Inr (case find P (querySelectorAll M ?root ''iframe'') of
              Some iframe \<Rightarrow> Some iframe
            | None \<Rightarrow> find P (concat (map (\<lambda>nested. querySelectorAll M nested ''iframe'')
                         (nestedDocuments (querySelectorAll M ?root ''iframe'')))))"
    unfolding findIframe_def
    by (subst findIframeRecursive_unfold)
       (simp add: i1 headOption_map_filter_find split: option.splits)
  have C: "findElement M document s (options\<lparr>maxDepth := Some (Finite 0)\<rparr>)
     = Inr (querySelector M ?root s)"
    unfolding findElement_def
    by (subst findElementRecursive_unfold) (simp add: e0 split: option.splits)
  have D: "findElement M document s (options\<lparr>maxDepth := Some (Finite 1)\<rparr>)
     = Inr (case querySelector M ?root s of
              Some e \<Rightarrow> Some e
            | None \<Rightarrow> headOption (concat (map (\<lambda>nested. querySelectorAll M nested s)
                         (nestedDocuments (querySelectorAll M ?root ''iframe'')))))"
    unfolding findElement_def
    by (subst findElementRecursive_unfold)
       (simp add: e1 querySelector_head headOption_concat_map_append split: option.splits)
  from A B C D show ?thesis by simp
qed




text \<open>
  Claim C4. An iframe whose nested document cannot be had, because the access raises a
  security error or because there is no document, is passed over and nothing else is
  lost. In every document \<open>doc\<close> within the bound whose iframes are
  \<open>before @ iframe # after\<close> with such an \<open>iframe\<close>, each of the three recursive
  searches behaves as if only the documents behind \<open>before @ after\<close> were there to
  descend into: that branch contributes nothing, its siblings are searched as before,
  and the iframe itself is still a candidate of the first pass. Each of the five public
  search operations is its recursive search at depth 0 on the root document, so when
  \<open>doc\<close> is the root the same holds of \<^verbatim>\<open>findIframe\<close>, \<^verbatim>\<open>findIframeById\<close>,
  \<^verbatim>\<open>findIframeByName\<close>, \<^verbatim>\<open>findElement\<close> and \<^verbatim>\<open>findAllElements\<close>. None of them ever
  ends in an exception.
\<close>

theorem inaccessible_iframe_skipped:
  assumes "contentDocument iframe = Inl SecurityError \<or> contentDocument iframe = Inr None"
      and "querySelectorAll M doc ''iframe'' = before @ iframe # after"
      and "\<not> gt d m"
  shows "findIframeRecursive M P doc d m =
           Inr (case find P (before @ iframe # after) of
                  Some x \<Rightarrow> Some x
                | None \<Rightarrow> headOption (List.map_filter
                             (\<lambda>nested. found (findIframeRecursive M P nested (d + 1) m))
                             (nestedDocuments (before @ after)))) \<and>
         findElementRecursive M s doc d m =
           Inr (case querySelector M doc s of
                  Some e \<Rightarrow> Some e
                | None \<Rightarrow> headOption (List.map_filter
                             (\<lambda>nested. found (findElementRecursive M s nested (d + 1) m))
                             (nestedDocuments (before @ after)))) \<and>
         findAllElementsRecursive M s doc d m results =
           (Inr (), results @ querySelectorAll M doc s @
                    concat (map (\<lambda>nested. snd (findAllElementsRecursive M s nested (d + 1) m []))
                              (nestedDocuments (before @ after)))) \<and>
         (\<exists>r. findIframe M document P options = Inr r) \<and>
         (\<exists>r. findIframeById M document i options = Inr r) \<and>
         (\<exists>r. findIframeByName M document n options = Inr r) \<and>
         (\<exists>r. findElement M document s options = Inr r) \<and>
         (\<exists>r. findAllElements M document s options = Inr r) \<and>
         findIframe M document P options =
           findIframeRecursive M P (rootDocument_or document options) 0
             (maxDepth_or_Infinity options) \<and>
         findIframeById M document i options =
           findIframeRecursive M (\<lambda>f. id_attr f = i) (rootDocument_or document options) 0
             (maxDepth_or_Infinity options) \<and>
         findIframeByName M document n options =
           findIframeRecursive M (\<lambda>f. name_attr f = n) (rootDocument_or document options) 0
             (maxDepth_or_Infinity options) \<and>
         findElement M document s options =
           findElementRecursive M s (rootDocument_or document options) 0
             (maxDepth_or_Infinity options) \<and>
         findAllElements M document s options =
           Inr (snd (findAllElementsRecursive M s (rootDocument_or document options) 0
                       (maxDepth_or_Infinity options) [])) \<and>
         (rootDocument_or document options = doc \<and> maxDepth_or_Infinity options = m \<and> d = 0
            \<longrightarrow>
            findIframe M document P options =
              Inr (case find P (before @ iframe # after) of
                     Some x \<Rightarrow> Some x
                   | None \<Rightarrow> headOption (List.map_filter
                                (\<lambda>nested. found (findIframeRecursive M P nested 1 m))
                                (nestedDocuments (before @ after)))) \<and>
            findIframeById M document i options =
              Inr (case find (\<lambda>f. id_attr f = i) (before @ iframe # after) of
                     Some x \<Rightarrow> Some x
                   | None \<Rightarrow> headOption (List.map_filter
                                (\<lambda>nested. found (findIframeRecursive M (\<lambda>f. id_attr f = i)
                                                   nested 1 m))
                                (nestedDocuments (before @ after)))) \<and>
            findIframeByName M document n options =
              Inr (case find (\<lambda>f. name_attr f = n) (before @ iframe # after) of
                     Some x \<Rightarrow> Some x
                   | None \<Rightarrow> headOption (List.map_filter
                                (\<lambda>nested. found (findIframeRecursive M (\<lambda>f. name_attr f = n)
                                                   nested 1 m))
                                (nestedDocuments (before @ after)))) \<and>
            findElement M document s options =
              Inr (case querySelector M doc s of
                     Some e \<Rightarrow> Some e
                   | None \<Rightarrow> headOption (List.map_filter
                                (\<lambda>nested. found (findElementRecursive M s nested 1 m))
                                (nestedDocuments (before @ after)))) \<and>
            findAllElements M document s options =
              Inr (querySelectorAll M doc s @
                   concat (map (\<lambda>nested. snd (findAllElementsRecursive M s nested 1 m []))
                             (nestedDocuments (before @ after)))))"
proof -
  note skip = nestedDocuments_skip [OF assms(1), of before after]
  have iframe_eq: "findIframeRecursive M Q doc d m =
           Inr (case find Q (before @ iframe # after) of
                  Some x \<Rightarrow> Some x
                | None \<Rightarrow> headOption (List.map_filter
                             (\<lambda>nested. found (findIframeRecursive M Q nested (d + 1) m))
                             (nestedDocuments (before @ after))))" for Q
  proof -
    have "findIframeRecursive M Q doc d m =
           Inr (case find Q (querySelectorAll M doc ''iframe'') of
                  Some x \<Rightarrow> Some x
                | None \<Rightarrow> headOption (List.map_filter
                             (\<lambda>nested. found (findIframeRecursive M Q nested (d + 1) m))
                             (nestedDocuments (querySelectorAll M doc ''iframe''))))"
      using assms(3) by (subst findIframeRecursive_unfold) simp
    then show ?thesis unfolding assms(2) skip .
  qed
  have "findElementRecursive M s doc d m =
           Inr (case querySelector M doc s of
                  Some e \<Rightarrow> Some e
                | None \<Rightarrow> headOption (List.map_filter
                             (\<lambda>nested. found (findElementRecursive M s nested (d + 1) m))
                             (nestedDocuments (querySelectorAll M doc ''iframe''))))"
    using assms(3) by (subst findElementRecursive_unfold) simp
  then have B: "findElementRecursive M s doc d m =
           Inr (case querySelector M doc s of
                  Some e \<Rightarrow> Some e
                | None \<Rightarrow> headOption (List.map_filter
                             (\<lambda>nested. found (findElementRecursive M s nested (d + 1) m))
                             (nestedDocuments (before @ after))))"
    unfolding assms(2) skip .
  have all_eq: "findAllElementsRecursive M s doc d m rs =
           (Inr (), rs @ querySelectorAll M doc s @
                    concat (map (\<lambda>nested. snd (findAllElementsRecursive M s nested (d + 1) m []))
                              (nestedDocuments (before @ after))))" for rs
  proof -
    have "findAllElementsRecursive M s doc d m rs =
           (Inr (), rs @ querySelectorAll M doc s @
                    concat (map (\<lambda>nested. spec_preorderMatches M s nested (d + 1) m)
                              (nestedDocuments (querySelectorAll M doc ''iframe''))))"
      using assms(3)
      by (simp add: all_char [of M s doc] spec_preorderMatches.simps [of M s doc])
    then show ?thesis unfolding assms(2) skip preorder_snd .
  qed
  have D: "\<exists>r. findIframe M document P options = Inr r"
    unfolding findIframe_def by (subst findIframeRecursive_unfold) blast
  have E: "\<exists>r. findIframeById M document i options = Inr r"
    unfolding findIframeById_def by (subst findIframeRecursive_unfold) blast
  have F: "\<exists>r. findIframeByName M document n options = Inr r"
    unfolding findIframeByName_def by (subst findIframeRecursive_unfold) blast
  have G: "\<exists>r. findElement M document s options = Inr r"
    by (simp add: findElement_char)
  have H: "\<exists>r. findAllElements M document s options = Inr r"
    by (simp add: findAllElements_char)
  have L1: "findIframe M document P options =
           findIframeRecursive M P (rootDocument_or document options) 0
             (maxDepth_or_Infinity options)"
    by (simp add: findIframe_def)
  have L2: "findIframeById M document i options =
           findIframeRecursive M (\<lambda>f. id_attr f = i) (rootDocument_or document options) 0
             (maxDepth_or_Infinity options)"
    by (simp add: findIframeById_def)
  have L3: "findIframeByName M document n options =
           findIframeRecursive M (\<lambda>f. name_attr f = n) (rootDocument_or document options) 0
             (maxDepth_or_Infinity options)"
    by (simp add: findIframeByName_def)
  have L4: "findElement M document s options =
           findElementRecursive M s (rootDocument_or document options) 0
             (maxDepth_or_Infinity options)"
    by (simp add: findElement_def)
  have L5: "findAllElements M document s options =
           Inr (snd (findAllElementsRecursive M s (rootDocument_or document options) 0
                       (maxDepth_or_Infinity options) []))"
    by (simp add: findAllElements_def all_char)
  have pub: "findIframe M document P options =
              Inr (case find P (before @ iframe # after) of
                     Some x \<Rightarrow> Some x
                   | None \<Rightarrow> headOption (List.map_filter
                                (\<lambda>nested. found (findIframeRecursive M P nested 1 m))
                                (nestedDocuments (before @ after)))) \<and>
            findIframeById M document i options =
              Inr (case find (\<lambda>f. id_attr f = i) (before @ iframe # after) of
                     Some x \<Rightarrow> Some x
                   | None \<Rightarrow> headOption (List.map_filter
                                (\<lambda>nested. found (findIframeRecursive M (\<lambda>f. id_attr f = i)
                                                   nested 1 m))
                                (nestedDocuments (before @ after)))) \<and>
            findIframeByName M document n options =
              Inr (case find (\<lambda>f. name_attr f = n) (before @ iframe # after) of
                     Some x \<Rightarrow> Some x
                   | None \<Rightarrow> headOption (List.map_filter
                                (\<lambda>nested. found (findIframeRecursive M (\<lambda>f. name_attr f = n)
                                                   nested 1 m))
                                (nestedDocuments (before @ after)))) \<and>
            findElement M document s options =
              Inr (case querySelector M doc s of
                     Some e \<Rightarrow> Some e
                   | None \<Rightarrow> headOption (List.map_filter
                                (\<lambda>nested. found (findElementRecursive M s nested 1 m))
                                (nestedDocuments (before @ after)))) \<and>
            findAllElements M document s options =
              Inr (querySelectorAll M doc s @
                   concat (map (\<lambda>nested. snd (findAllElementsRecursive M s nested 1 m []))
                             (nestedDocuments (before @ after))))"
    if root: "rootDocument_or document options = doc" "maxDepth_or_Infinity options = m" "d = 0"
    using iframe_eq [of P] iframe_eq [of "\<lambda>f. id_attr f = i"]
          iframe_eq [of "\<lambda>f. name_attr f = n"] B all_eq [of "[]"]
    unfolding L1 L2 L3 L4 L5 root add_0 by simp
  from iframe_eq [of P] B all_eq [of results] D E F G H L1 L2 L3 L4 L5 pub
  show ?thesis by blast
qed

theorem inaccessible_iframe_skipped_witness:
  "contentDocument ex_blocked = Inl SecurityError \<and>
   querySelectorAll simpleMatches ex_guarded ''iframe'' = [ex_open] @ ex_blocked # [ex_host] \<and>
   \<not> gt 0 PosInfinity \<and>
   findIframe simpleMatches ex_guarded (\<lambda>f. className f = ''foo'')
     \<lparr>rootDocument = None, maxDepth = None\<rparr> = Inr (Some ex_inner) \<and>
   findIframeById simpleMatches ex_guarded ''inner'' \<lparr>rootDocument = None, maxDepth = None\<rparr>
     = Inr (Some ex_inner) \<and>
   findIframeByName simpleMatches ex_guarded ''deepest'' \<lparr>rootDocument = None, maxDepth = None\<rparr>
     = Inr (Some ex_inner) \<and>
   findElement simpleMatches ex_guarded ''.foo'' \<lparr>rootDocument = None, maxDepth = None\<rparr>
     = Inr (Some ex_foo) \<and>
   findAllElements simpleMatches ex_guarded ''.foo'' \<lparr>rootDocument = None, maxDepth = None\<rparr>
     = Inr [ex_foo, ex_foo, ex_inner] \<and>
   findIframeRecursive simpleMatches (\<lambda>f. className f = ''foo'') ex_guarded 0 PosInfinity
     = Inr (Some ex_inner) \<and>
   findElementRecursive simpleMatches ''.foo'' ex_guarded 0 PosInfinity = Inr (Some ex_foo) \<and>
   findAllElementsRecursive simpleMatches ''.foo'' ex_guarded 0 PosInfinity []
     = (Inr (), [ex_foo, ex_foo, ex_inner])"
proof -
  have h1: "contentDocument ex_blocked = Inl SecurityError \<or> contentDocument ex_blocked = Inr None"
    by (simp add: ex_defs)
  have h2: "querySelectorAll simpleMatches ex_guarded ''iframe''
              = [ex_open] @ ex_blocked # [ex_host]"
    by (simp add: ex_defs querySelectorAll_def)
  have h3: "\<not> gt 0 PosInfinity" by simp
  have root: "rootDocument_or ex_guarded \<lparr>rootDocument = None, maxDepth = None\<rparr> = ex_guarded"
             "maxDepth_or_Infinity \<lparr>rootDocument = None, maxDepth = None\<rparr> = PosInfinity"
    by (simp_all add: rootDocument_or_def maxDepth_or_Infinity_def)
  show ?thesis
    using inaccessible_iframe_skipped [OF h1 h2 h3,
            where P = "\<lambda>f. className f = ''foo''" and s = "''.foo''" and results = "[]"
              and document = ex_guarded
              and options = "\<lparr>rootDocument = None, maxDepth = None\<rparr>"
              and i = "''inner''" and n = "''deepest''"] h2 root
    by (simp add: eval_simps ex_defs)
qed

text \<open>
  Claim C5. \<^verbatim>\<open>findAllIframes\<close> looks at one document only. It returns the iframes of
  the given root document that satisfy the predicate, in document order, with the
  ambient document as the default root. What the predicate says about anything else
  has no influence on the result, and an element that is not in the root document,
  such as an iframe inside the document of a root iframe, is never returned.
\<close>

theorem findAllIframes_single_level:
  "findAllIframes M document P (Some rootDoc)
     = filter (\<lambda>e. M ''iframe'' e \<and> P e) (elements rootDoc) \<and>
   findAllIframes M document P None = findAllIframes M document P (Some document) \<and>
   ((\<forall>e \<in> set (querySelectorAll M rootDoc ''iframe''). P e = Q e) \<longrightarrow>
      findAllIframes M document P (Some rootDoc) = findAllIframes M document Q (Some rootDoc)) \<and>
   (b \<notin> set (elements rootDoc) \<longrightarrow> b \<notin> set (findAllIframes M document P (Some rootDoc)))"
proof -
  have A: "findAllIframes M document P (Some rootDoc)
     = filter (\<lambda>e. M ''iframe'' e \<and> P e) (elements rootDoc)"
    by (simp add: findAllIframes_def querySelectorAll_def conj_commute)
  have B: "findAllIframes M document P None = findAllIframes M document P (Some document)"
    by (simp add: findAllIframes_def)
  have C: "(\<forall>e \<in> set (querySelectorAll M rootDoc ''iframe''). P e = Q e) \<longrightarrow>
      findAllIframes M document P (Some rootDoc) = findAllIframes M document Q (Some rootDoc)"
    by (auto simp: findAllIframes_def intro: filter_cong)
  have D: "b \<notin> set (elements rootDoc) \<longrightarrow> b \<notin> set (findAllIframes M document P (Some rootDoc))"
    by (simp add: A)
  from A B C D show ?thesis by blast
qed

theorem findAllIframes_single_level_witness:
  "ex_target \<notin> set (elements ex_root) \<and>
   className ex_target = ''content'' \<and>
   findAllIframes simpleMatches ex_mixed (\<lambda>e. className e = ''content'') (Some ex_root) = [ex_b] \<and>
   findAllIframes simpleMatches ex_mixed (\<lambda>e. className e = ''content'' \<and> e \<noteq> ex_target)
     (Some ex_root) = [ex_b] \<and>
   ex_target \<notin> set (findAllIframes simpleMatches ex_mixed (\<lambda>e. className e = ''content'')
                       (Some ex_root))"
proof -
  have h1: "\<forall>e \<in> set (querySelectorAll simpleMatches ex_root ''iframe'').
       (className e = ''content'') = (className e = ''content'' \<and> e \<noteq> ex_target)"
    by (simp add: ex_defs querySelectorAll_def)
  have h2: "ex_target \<notin> set (elements ex_root)"
    by (simp add: ex_defs)
  show ?thesis
    using findAllIframes_single_level [of simpleMatches ex_mixed "\<lambda>e. className e = ''content''" ex_root
                 "\<lambda>e. className e = ''content'' \<and> e \<noteq> ex_target" ex_target] h1 h2
    by (simp add: eval_simps ex_defs)
qed

text \<open>
  Claim C6. \<^verbatim>\<open>findAllElements\<close> returns the pre-order concatenation of the matches of
  the documents it reaches: \<^verbatim>\<open>findAllElementsRecursive\<close> appends exactly that sequence
  to the array it is given and ends normally.
\<close>

theorem findAllElements_preorder:
  "findAllElementsRecursive M s doc d m results
     = (Inr (), results @ spec_preorderMatches M s doc d m) \<and>
   findAllElements M document s options =
     Inr (spec_preorderMatches M s (rootDocument_or document options) 0
            (maxDepth_or_Infinity options))"
  by (simp add: all_char findAllElements_char)

text \<open>
  Claim C7. With \<^verbatim>\<open>maxDepth = 0\<close>, \<^verbatim>\<open>findAllElements\<close> returns what
  \<^verbatim>\<open>querySelectorAll\<close> returns on the root document, in the same order.
\<close>

theorem findAllElements_maxDepth_zero:
  "findAllElements M document s (options\<lparr>maxDepth := Some (Finite 0)\<rparr>)
     = Inr (querySelectorAll M (rootDocument_or document options) s)"
proof -
  have "spec_preorderMatches M s cd (Suc 0) (Finite 0) = []" for cd
    by (simp add: spec_preorderMatches.simps)
  then show ?thesis
    by (simp add: findAllElements_char spec_preorderMatches.simps [of M s _ 0])
qed

text \<open>
  Claim C8. \<^verbatim>\<open>findIframeById\<close> is \<^verbatim>\<open>findIframe\<close> with the predicate that compares the
  id attribute with the given string, \<^verbatim>\<open>findIframeByName\<close> is \<^verbatim>\<open>findIframe\<close> with the
  predicate that compares the name attribute, for the same options.
\<close>

theorem findIframeById_findIframeByName_specialise:
  "findIframeById M document i options
     = findIframe M document (\<lambda>iframe. id_attr iframe = i) options \<and>
   findIframeByName M document n options
     = findIframe M document (\<lambda>iframe. name_attr iframe = n) options"
  by (simp add: findIframeById_def findIframeByName_def findIframe_def)

text \<open>
  Claim C9. \<^verbatim>\<open>findElement\<close> returns the first element of what \<^verbatim>\<open>findAllElements\<close>
  returns for the same selector and options, and \<^verbatim>\<open>null\<close> when that sequence is empty.
\<close>

theorem findElement_head_of_findAllElements:
  "\<exists>xs. findAllElements M document s options = Inr xs \<and>
        findElement M document s options = Inr (headOption xs)"
  by (simp add: findAllElements_char findElement_char)

text \<open>
  Claim C10. With a negative \<^verbatim>\<open>maxDepth\<close>, a negative real or \<^verbatim>\<open>-Infinity\<close>, every
  recursive operation returns its empty result whatever the documents are.
\<close>

theorem negative_maxDepth_empty:
  "r < 0 \<Longrightarrow>
     findIframe M document P (options\<lparr>maxDepth := Some (Finite r)\<rparr>) = Inr None \<and>
     findIframeById M document i (options\<lparr>maxDepth := Some (Finite r)\<rparr>) = Inr None \<and>
     findIframeByName M document n (options\<lparr>maxDepth := Some (Finite r)\<rparr>) = Inr None \<and>
     findElement M document s (options\<lparr>maxDepth := Some (Finite r)\<rparr>) = Inr None \<and>
     findAllElements M document s (options\<lparr>maxDepth := Some (Finite r)\<rparr>) = Inr [] \<and>
     findIframe M document P (options\<lparr>maxDepth := Some NegInfinity\<rparr>) = Inr None \<and>
     findIframeById M document i (options\<lparr>maxDepth := Some NegInfinity\<rparr>) = Inr None \<and>
     findIframeByName M document n (options\<lparr>maxDepth := Some NegInfinity\<rparr>) = Inr None \<and>
     findElement M document s (options\<lparr>maxDepth := Some NegInfinity\<rparr>) = Inr None \<and>
     findAllElements M document s (options\<lparr>maxDepth := Some NegInfinity\<rparr>) = Inr []"
  by (simp add: findIframe_def findIframeById_def findIframeByName_def findElement_def
                findAllElements_def findIframeRecursive_exceeded findElementRecursive_exceeded
                findAllElementsRecursive_exceeded)

theorem negative_maxDepth_empty_witness:
  "(-1 :: real) < 0 \<and>
   findIframe simpleMatches ex_root (\<lambda>iframe. id_attr iframe = ''target'') \<lparr>rootDocument = None, maxDepth = Some (Finite (-1))\<rparr>
     = Inr None \<and>
   findAllElements simpleMatches ex_root ''iframe''
     \<lparr>rootDocument = None, maxDepth = Some (Finite (-1))\<rparr> = Inr []"
  using negative_maxDepth_empty [of "-1" simpleMatches ex_root "\<lambda>iframe. id_attr iframe = ''target''" "\<lparr>rootDocument = None, maxDepth = None\<rparr>"
               "[]" "[]" "''iframe''"]
  by simp

end
